theory Spec2Isabelle
  imports Main "HOL-Library.Word"
begin

section \<open>The JSON layer used by ThingsBoard.h\<close>

text \<open>
  ThingsBoard.h builds and reads JSON through ArduinoJson 6 (\<open>StaticJsonDocument\<close>,
  \<open>JsonVariant\<close>, \<open>measureJson\<close>, \<open>serializeJson\<close>), which is a library outside the
  repository. The part of it that the header calls is modelled here, after the library's
  documented behaviour: a variant is a JSON tree, a document is a root variant with a fixed
  number of member slots. Floating-point numbers stay abstract: they are values of a type
  parameter \<open>'f\<close>, and their text is produced by a function of the environment.
\<close>

datatype 'f json =
    JNull
  | JBool bool
  | JInt int
  | JReal 'f
  | JStr string
  | JArray "'f json list"
  | JObject "(string \<times> 'f json) list"

text \<open>Integers are written in decimal; \<open>digit_char\<close> is applied below 10 only.\<close>

definition digit_char :: "nat \<Rightarrow> char" where
  "digit_char d = ''0123456789'' ! d"

function dec_nat :: "nat \<Rightarrow> string" where
  "dec_nat n =
     (if n < 10 then [digit_char n]
      else dec_nat (n div 10) @ [digit_char (n mod 10)])"
  by pat_completeness auto
termination
  by (relation "measure id") auto

definition dec_int :: "int \<Rightarrow> string" where
  "dec_int i = (if i < 0 then CHR ''-'' # dec_nat (nat (- i)) else dec_nat (nat i))"

text \<open>The compact writer escapes the quote, the backslash and five control characters.\<close>

definition escape_char :: "char \<Rightarrow> string" where
  "escape_char c =
     (if c = CHR 0x22 then [CHR 0x5C, CHR 0x22]
      else if c = CHR 0x5C then [CHR 0x5C, CHR 0x5C]
      else if c = CHR 0x08 then [CHR 0x5C, CHR ''b'']
      else if c = CHR 0x0C then [CHR 0x5C, CHR ''f'']
      else if c = CHR 0x0A then [CHR 0x5C, CHR ''n'']
      else if c = CHR 0x0D then [CHR 0x5C, CHR ''r'']
      else if c = CHR 0x09 then [CHR 0x5C, CHR ''t'']
      else [c])"

definition quoted :: "string \<Rightarrow> string" where
  "quoted s = CHR 0x22 # concat (map escape_char s) @ [CHR 0x22]"

fun commas :: "string list \<Rightarrow> string" where
  "commas [] = []"
| "commas [x] = x"
| "commas (x # y # ys) = x @ CHR '','' # commas (y # ys)"

fun json_text :: "('f \<Rightarrow> string) \<Rightarrow> 'f json \<Rightarrow> string" where
  "json_text fr JNull = ''null''"
| "json_text fr (JBool b) = (if b then ''true'' else ''false'')"
| "json_text fr (JInt i) = dec_int i"
| "json_text fr (JReal r) = fr r"
| "json_text fr (JStr s) = quoted s"
| "json_text fr (JArray xs) = CHR ''['' # commas (map (json_text fr) xs) @ '']''"
| "json_text fr (JObject ms) =
     CHR ''{'' # commas (map (\<lambda>(k, v). quoted k @ CHR '':'' # json_text fr v) ms) @ ''}''"

text \<open>
  \<open>StaticJsonDocument<JSON_OBJECT_SIZE(n)>\<close>: a root variant and room for \<open>n\<close> object
  members. Keys and string values given as \<open>const char*\<close> are linked, not copied, so an
  object built by the header uses exactly one slot for each member.
\<close>

record 'f JsonDocument =
  capacity :: nat
  root :: "'f json"

text \<open>\<open>jsonBuffer.to<JsonVariant>()\<close>: the document is cleared, its root is null.\<close>

definition to_JsonVariant :: "nat \<Rightarrow> 'f JsonDocument" where
  "to_JsonVariant n = \<lparr>capacity = n, root = JNull\<rparr>"

fun replace_member :: "string \<Rightarrow> 'f json \<Rightarrow> (string \<times> 'f json) list \<Rightarrow> (string \<times> 'f json) list" where
  "replace_member k v [] = []"
| "replace_member k v (p # ps) = (if fst p = k then (k, v) # ps else p # replace_member k v ps)"

text \<open>
  \<open>jsonObj[key] = value\<close>. A null variant first becomes an empty object. In an object
  the member named \<open>key\<close> is overwritten when it exists; otherwise it is appended when a
  slot is free. When no slot is free, or when the variant holds something other than an
  object, nothing is stored. The flag says whether the value was stored; \<open>operator=\<close>
  does not return it.
\<close>

definition assign_member :: "string \<Rightarrow> 'f json \<Rightarrow> 'f JsonDocument \<Rightarrow> bool \<times> 'f JsonDocument" where
  "assign_member k v d =
     (case (if root d = JNull then JObject [] else root d) of
        JObject ms \<Rightarrow>
          if map_of ms k \<noteq> None then (True, d\<lparr>root := JObject (replace_member k v ms)\<rparr>)
          else if length ms < capacity d then (True, d\<lparr>root := JObject (ms @ [(k, v)])\<rparr>)
          else (False, d\<lparr>root := JObject ms\<rparr>)
      | _ \<Rightarrow> (False, d))"

text \<open>\<open>jsonObj.set(value)\<close> on the variant itself: the variant becomes the scalar.\<close>

definition set_variant :: "'f json \<Rightarrow> 'f JsonDocument \<Rightarrow> bool \<times> 'f JsonDocument" where
  "set_variant v d = (True, d\<lparr>root := v\<rparr>)"

text \<open>
  \<open>measureJson\<close> is the length of the compact text. \<open>serializeJson(obj, buf, size)\<close>
  leaves a terminated string in a buffer of \<open>size\<close> bytes, so at most \<open>size - 1\<close>
  characters of the text.
\<close>

definition measureJson :: "('f \<Rightarrow> string) \<Rightarrow> 'f JsonDocument \<Rightarrow> nat" where
  "measureJson fr d = length (json_text fr (root d))"

definition serializeJson :: "('f \<Rightarrow> string) \<Rightarrow> 'f JsonDocument \<Rightarrow> nat \<Rightarrow> string" where
  "serializeJson fr d sz = take (sz - 1) (json_text fr (root d))"

text \<open>Reading a decoded message: \<open>as<JsonObject>()\<close>, \<open>data[key]\<close>, \<open>containsKey\<close>,
  and the conversion of a variant to \<open>const char*\<close> (null unless it holds a string).\<close>

definition members :: "'f json \<Rightarrow> (string \<times> 'f json) list" where
  "members v = (case v of JObject ms \<Rightarrow> ms | _ \<Rightarrow> [])"

definition get_member :: "'f json \<Rightarrow> string \<Rightarrow> 'f json" where
  "get_member v k = (case map_of (members v) k of None \<Rightarrow> JNull | Some x \<Rightarrow> x)"

definition containsKey :: "'f json \<Rightarrow> string \<Rightarrow> bool" where
  "containsKey v k = (map_of (members v) k \<noteq> None)"

definition as_cstr :: "'f json \<Rightarrow> string option" where
  "as_cstr v = (case v of JStr s \<Rightarrow> Some s | _ \<Rightarrow> None)"

datatype DeserializationError = IncompleteInput | InvalidInput | NoMemory | NotSupported | TooDeep

section \<open>Telemetry records\<close>

text \<open>
  \<open>class Telemetry\<close>: the tag \<open>m_type\<close> and the union \<open>m_value\<close> are one datatype, the
  constructor naming the tag. \<open>m_key\<close> and a string value are \<open>const char*\<close> and may be
  null.
\<close>

datatype 'f data =
    TYPE_NONE
  | TYPE_BOOL bool
  | TYPE_INT int
  | TYPE_REAL 'f
  | TYPE_STR "string option"

record 'f Telemetry =
  m_key :: "string option"
  m_value :: "'f data"

definition Telemetry_default :: "'f Telemetry" where
  "Telemetry_default = \<lparr>m_key = None, m_value = TYPE_NONE\<rparr>"

definition cstr_json :: "string option \<Rightarrow> 'f json" where
  "cstr_json s = (case s of None \<Rightarrow> JNull | Some x \<Rightarrow> JStr x)"

definition serializeKeyval :: "'f Telemetry \<Rightarrow> 'f JsonDocument \<Rightarrow> bool \<times> 'f JsonDocument" where
  "serializeKeyval t jsonObj =
     (case m_key t of
        Some k \<Rightarrow>
          (case m_value t of
             TYPE_BOOL b \<Rightarrow> (True, snd (assign_member k (JBool b) jsonObj))
           | TYPE_INT i \<Rightarrow> (True, snd (assign_member k (JInt i) jsonObj))
           | TYPE_REAL r \<Rightarrow> (True, snd (assign_member k (JReal r) jsonObj))
           | TYPE_STR s \<Rightarrow> (True, snd (assign_member k (cstr_json s) jsonObj))
           | TYPE_NONE \<Rightarrow> (True, jsonObj))
      | None \<Rightarrow>
          (case m_value t of
             TYPE_BOOL b \<Rightarrow> set_variant (JBool b) jsonObj
           | TYPE_INT i \<Rightarrow> set_variant (JInt i) jsonObj
           | TYPE_REAL r \<Rightarrow> set_variant (JReal r) jsonObj
           | TYPE_STR s \<Rightarrow> set_variant (cstr_json s) jsonObj
           | TYPE_NONE \<Rightarrow> (True, jsonObj)))"

section \<open>The MQTT client \<open>ThingsBoardSized\<close>\<close>

text \<open>
  \<open>RPC_Callback\<close>: a method name and a function pointer, which may be null. The name is
  read only when the pointer is not null. A handler is a function from the parameters
  (\<open>RPC_Data = JsonVariant\<close>) to the response record.
\<close>

record 'f RPC_Callback =
  m_name :: string
  m_cb :: "('f json \<Rightarrow> 'f Telemetry) option"

text \<open>
  \<open>PubSubClient\<close> is outside the repository. The member \<open>m_client\<close> is the list of
  the calls made on it, oldest first; what a call returns is decided by the environment
  from the calls so far, the last element being the call that is answered.
\<close>

datatype call =
    SetServer string "16 word"
  | Connect string string "string option"
  | Disconnect
  | Connected
  | Loop
  | Publish string string
  | Subscribe string
  | Unsubscribe string
  | SetCallback

record 'f env =
  transport :: "call list \<Rightarrow> bool"
  float_text :: "'f \<Rightarrow> string"

text \<open>
  The object state. \<open>logged\<close> holds the lines given to \<open>Logger::log\<close>; \<open>invoked\<close>
  holds the calls made through the function pointers \<open>m_cb\<close>, as the index of the entry in
  \<open>m_rpcCallbacks\<close> and the argument passed.
\<close>

record 'f ThingsBoardSized =
  m_client :: "call list"
  m_rpcCallbacks :: "'f RPC_Callback list"
  m_subscribedInstance :: bool
  logged :: "string list"
  invoked :: "(nat \<times> 'f json) list"

text \<open>
  The template parameters \<open>PayloadSize\<close> and \<open>MaxFieldsAmt\<close>, of type \<open>size_t\<close>, are
  the first two arguments of the functions that use them: words of the width \<open>'w\<close> of
  \<open>size_t\<close> on the target.
\<close>

definition log :: "string \<Rightarrow> 'f ThingsBoardSized \<Rightarrow> 'f ThingsBoardSized" where
  "log msg st = st\<lparr>logged := logged st @ [msg]\<rparr>"

definition client_call :: "'f env \<Rightarrow> call \<Rightarrow> 'f ThingsBoardSized \<Rightarrow> bool \<times> 'f ThingsBoardSized" where
  "client_call E c st = (transport E (m_client st @ [c]), st\<lparr>m_client := m_client st @ [c]\<rparr>)"

definition RPC_Unsubscribe :: "'f env \<Rightarrow> 'f ThingsBoardSized \<Rightarrow> bool \<times> 'f ThingsBoardSized" where
  "RPC_Unsubscribe E st =
     client_call E (Unsubscribe ''v1/devices/me/rpc/request/+'') (st\<lparr>m_subscribedInstance := False\<rparr>)"

definition RPC_Subscribed :: "'f ThingsBoardSized \<Rightarrow> bool" where
  "RPC_Subscribed st = m_subscribedInstance st"

definition connect ::
  "'f env \<Rightarrow> string option \<Rightarrow> string option \<Rightarrow> 16 word \<Rightarrow> 'f ThingsBoardSized \<Rightarrow> bool \<times> 'f ThingsBoardSized" where
  "connect E host access_token port st =
     (case host of
        None \<Rightarrow> (False, st)
      | Some h \<Rightarrow>
          (case access_token of
             None \<Rightarrow> (False, st)
           | Some tok \<Rightarrow>
               client_call E (Connect ''TbDev'' tok None)
                 (snd (client_call E (SetServer h port) (snd (RPC_Unsubscribe E st))))))"

definition disconnect :: "'f env \<Rightarrow> 'f ThingsBoardSized \<Rightarrow> 'f ThingsBoardSized" where
  "disconnect E st = snd (client_call E Disconnect st)"

definition connected :: "'f env \<Rightarrow> 'f ThingsBoardSized \<Rightarrow> bool \<times> 'f ThingsBoardSized" where
  "connected E st = client_call E Connected st"

definition loop :: "'f env \<Rightarrow> 'f ThingsBoardSized \<Rightarrow> 'f ThingsBoardSized" where
  "loop E st = snd (client_call E Loop st)"

definition sendTelemetryJson :: "'f env \<Rightarrow> string \<Rightarrow> 'f ThingsBoardSized \<Rightarrow> bool \<times> 'f ThingsBoardSized" where
  "sendTelemetryJson E js st = client_call E (Publish ''v1/devices/me/telemetry'' js) st"

definition sendAttributeJSON :: "'f env \<Rightarrow> string \<Rightarrow> 'f ThingsBoardSized \<Rightarrow> bool \<times> 'f ThingsBoardSized" where
  "sendAttributeJSON E js st = client_call E (Publish ''v1/devices/me/attributes'' js) st"

definition RPC_Subscribe ::
  "'f env \<Rightarrow> 'f RPC_Callback list \<Rightarrow> 'f ThingsBoardSized \<Rightarrow> bool \<times> 'f ThingsBoardSized" where
  "RPC_Subscribe E callbacks st =
     (if m_subscribedInstance st then (False, st)
      else
        (case client_call E (Subscribe ''v1/devices/me/rpc/request/+'') st of
           (ok, st1) \<Rightarrow>
             if \<not> ok then (False, st1)
             else
               (True, snd (client_call E SetCallback
                   (st1\<lparr>m_subscribedInstance := True, m_rpcCallbacks := callbacks\<rparr>)))))"

text \<open>
  The size test \<open>measureJson(jsonBuffer) > PayloadSize - 1\<close>: the subtraction is done in
  \<open>size_t\<close> and wraps at \<open>PayloadSize = 0\<close>. (The buffers \<open>char payload[PayloadSize]\<close>
  need \<open>PayloadSize\<close> to be at least 1.)
\<close>

definition too_small :: "'w::len word \<Rightarrow> nat \<Rightarrow> bool" where
  "too_small PayloadSize n = (n > unat (PayloadSize - 1))"

text \<open>The single key-value path. \<open>Telemetry t(key, value)\<close> is the record built by the
  constructor that the type of \<open>value\<close> selects.\<close>

definition sendKeyval ::
  "'w::len word \<Rightarrow> 'w word \<Rightarrow> 'f env \<Rightarrow> string option \<Rightarrow> 'f data \<Rightarrow> bool \<Rightarrow> 'f ThingsBoardSized
     \<Rightarrow> bool \<times> 'f ThingsBoardSized" where
  "sendKeyval PayloadSize MaxFieldsAmt E key val telemetry st =
     (case serializeKeyval \<lparr>m_key = key, m_value = val\<rparr> (to_JsonVariant 1) of
        (ok, object) \<Rightarrow>
          if \<not> ok then (False, log ''unable to serialize data'' st)
          else if too_small PayloadSize (measureJson (float_text E) object)
            then (False, log ''too small buffer for JSON data'' st)
          else
            (if telemetry
             then sendTelemetryJson E (serializeJson (float_text E) object (unat PayloadSize)) st
             else sendAttributeJSON E (serializeJson (float_text E) object (unat PayloadSize)) st))"

text \<open>The loop of \<open>sendDataArray\<close> over the records: \<open>None\<close> when a record fails.\<close>

fun serialize_records :: "'f Telemetry list \<Rightarrow> 'f JsonDocument \<Rightarrow> 'f JsonDocument option" where
  "serialize_records [] object = Some object"
| "serialize_records (t # ts) object =
     (case serializeKeyval t object of
        (ok, object') \<Rightarrow> if \<not> ok then None else serialize_records ts object')"

text \<open>The array \<open>data\<close> of \<open>data_count\<close> records is the list \<open>data\<close>, and \<open>data_count\<close>
  its length.\<close>

definition sendDataArray ::
  "'w::len word \<Rightarrow> 'w word \<Rightarrow> 'f env \<Rightarrow> 'f Telemetry list \<Rightarrow> bool \<Rightarrow> 'f ThingsBoardSized
     \<Rightarrow> bool \<times> 'f ThingsBoardSized" where
  "sendDataArray PayloadSize MaxFieldsAmt E data telemetry st =
     (if unat MaxFieldsAmt < length data
      then (False, log ''too much JSON fields passed'' st)
      else
        (case serialize_records data (to_JsonVariant (unat MaxFieldsAmt)) of
           None \<Rightarrow> (False, log ''unable to serialize data'' st)
         | Some object \<Rightarrow>
             if too_small PayloadSize (measureJson (float_text E) object)
             then (False, log ''too small buffer for JSON data'' st)
             else
               (if telemetry
                then sendTelemetryJson E (serializeJson (float_text E) object (unat PayloadSize)) st
                else sendAttributeJSON E (serializeJson (float_text E) object (unat PayloadSize)) st)))"

definition sendTelemetry ::
  "'w::len word \<Rightarrow> 'w word \<Rightarrow> 'f env \<Rightarrow> 'f Telemetry list \<Rightarrow> 'f ThingsBoardSized \<Rightarrow> bool \<times> 'f ThingsBoardSized" where
  "sendTelemetry PayloadSize MaxFieldsAmt E data st = sendDataArray PayloadSize MaxFieldsAmt E data True st"

definition sendAttributes ::
  "'w::len word \<Rightarrow> 'w word \<Rightarrow> 'f env \<Rightarrow> 'f Telemetry list \<Rightarrow> 'f ThingsBoardSized \<Rightarrow> bool \<times> 'f ThingsBoardSized" where
  "sendAttributes PayloadSize MaxFieldsAmt E data st = sendDataArray PayloadSize MaxFieldsAmt E data False st"

section \<open>Inbound RPC messages\<close>

text \<open>
  \<open>String::replace(find, replace)\<close> of the Arduino core, which is outside the repository:
  every occurrence of \<open>find\<close> is replaced, and an empty \<open>find\<close> changes nothing. The
  header calls it with \<open>request\<close> and \<open>response\<close>; occurrences of \<open>request\<close> cannot
  overlap, so the order in which they are replaced does not matter.
\<close>

function replace :: "string \<Rightarrow> string \<Rightarrow> string \<Rightarrow> string" where
  "replace f r [] = []"
| "replace f r (c # cs) =
     (if f \<noteq> [] \<and> take (length f) (c # cs) = f
      then r @ replace f r (drop (length f) (c # cs))
      else c # replace f r cs)"
  by pat_completeness auto
termination
  by (relation "measure (\<lambda>(f, r, s). length s)") auto

definition responseTopic :: "string \<Rightarrow> string" where
  "responseTopic topic = replace ''request'' ''response'' topic"

text \<open>
  The loop over \<open>m_rpcCallbacks\<close>: the first entry with a callback and an equal name is
  called with \<open>data["params"]\<close> and ends the loop. The result is the response \<open>r\<close>, which
  stays the default record when no entry is called. \<open>i\<close> is the index of the entry at the
  head of the list.
\<close>

fun call_first_match ::
  "'f RPC_Callback list \<Rightarrow> nat \<Rightarrow> string \<Rightarrow> 'f json \<Rightarrow> 'f ThingsBoardSized
     \<Rightarrow> 'f Telemetry \<times> 'f ThingsBoardSized" where
  "call_first_match [] i methodName data st = (Telemetry_default, st)"
| "call_first_match (cb # cbs) i methodName data st =
     (case m_cb cb of
        None \<Rightarrow> call_first_match cbs (Suc i) methodName data st
      | Some h \<Rightarrow>
          if m_name cb = methodName
          then
            (h (get_member data ''params''),
             (if \<not> containsKey data ''params''
              then log ''no parameters passed with RPC, passing nullptr JSON''
                     (log methodName (log ''calling RPC:'' st))
              else log methodName (log ''calling RPC:'' st))
             \<lparr>invoked := invoked st @ [(i, get_member data ''params'')]\<rparr>)
          else call_first_match cbs (Suc i) methodName data st)"

text \<open>
  \<open>process_message\<close>. The decoder \<open>deserializeJson\<close> belongs to the JSON library: what it
  returned for \<open>payload\<close> and \<open>length\<close> is the argument \<open>decoded\<close>, an error or the
  decoded document.
\<close>

definition process_message ::
  "'w::len word \<Rightarrow> 'w word \<Rightarrow> 'f env \<Rightarrow> string \<Rightarrow> DeserializationError + 'f json
     \<Rightarrow> 'f ThingsBoardSized \<Rightarrow> 'f ThingsBoardSized" where
  "process_message PayloadSize MaxFieldsAmt E topic decoded st =
     (case decoded of
        Inl error \<Rightarrow> log ''unable to de-serialize RPC'' st
      | Inr jsonBuffer \<Rightarrow>
          (case as_cstr (get_member jsonBuffer ''method'') of
             None \<Rightarrow> log ''RPC method is nullptr'' st
           | Some methodName \<Rightarrow>
               (case call_first_match (m_rpcCallbacks st) 0 methodName jsonBuffer
                       (log methodName (log ''received RPC:'' st)) of
                  (r, st1) \<Rightarrow>
                    (case serializeKeyval r (to_JsonVariant 1) of
                       (ok, resp_obj) \<Rightarrow>
                         if \<not> ok then log ''unable to serialize data'' st1
                         else if too_small PayloadSize (measureJson (float_text E) resp_obj)
                           then log ''too small buffer for JSON data'' st1
                         else
                           snd (client_call E
                                  (Publish (responseTopic topic)
                                     (serializeJson (float_text E) resp_obj (unat PayloadSize)))
                                  (log (serializeJson (float_text E) resp_obj (unat PayloadSize))
                                     (log ''response:'' st1)))))))"

text \<open>The callback installed by \<open>RPC_Subscribe\<close>.\<close>

definition on_message ::
  "'w::len word \<Rightarrow> 'w word \<Rightarrow> 'f env \<Rightarrow> string \<Rightarrow> DeserializationError + 'f json
     \<Rightarrow> 'f ThingsBoardSized \<Rightarrow> 'f ThingsBoardSized" where
  "on_message PayloadSize MaxFieldsAmt E topic decoded st =
     (if m_subscribedInstance st
      then process_message PayloadSize MaxFieldsAmt E topic decoded st
      else st)"

section \<open>The HTTP client \<open>ThingsBoardHttpSized\<close>\<close>

text \<open>
  \<open>HttpClient\<close> is outside the repository. As for the MQTT client, \<open>h_client\<close> is the list
  of the calls made on it and the environment answers each call, here with an \<open>int\<close>.
  \<open>HTTP_SUCCESS\<close> is a constant of that library and is a field of the environment.
\<close>

datatype http_call =
    HConnected
  | HConnect "string option" "16 word"
  | HPost string string string
  | HResponseStatusCode
  | HStop

record 'f http_env =
  http :: "http_call list \<Rightarrow> int"
  HTTP_SUCCESS :: int
  http_float_text :: "'f \<Rightarrow> string"

record ThingsBoardHttpSized =
  h_client :: "http_call list"
  m_host :: "string option"
  m_port :: "16 word"
  m_token :: "string option"
  h_logged :: "string list"

definition http_log :: "string \<Rightarrow> ThingsBoardHttpSized \<Rightarrow> ThingsBoardHttpSized" where
  "http_log msg st = st\<lparr>h_logged := h_logged st @ [msg]\<rparr>"

definition http_client_call ::
  "'f http_env \<Rightarrow> http_call \<Rightarrow> ThingsBoardHttpSized \<Rightarrow> int \<times> ThingsBoardHttpSized" where
  "http_client_call H c st = (http H (h_client st @ [c]), st\<lparr>h_client := h_client st @ [c]\<rparr>)"

text \<open>
  \<open>sendTelemetryJson\<close> and \<open>sendAttributeJSON\<close> of the HTTP client have the same body
  and differ in the last segment of the path, the argument \<open>leaf\<close> here.
\<close>

definition http_post_json ::
  "'f http_env \<Rightarrow> string \<Rightarrow> string option \<Rightarrow> ThingsBoardHttpSized \<Rightarrow> bool \<times> ThingsBoardHttpSized" where
  "http_post_json H leaf json st =
     (case json of
        None \<Rightarrow> (False, st)
      | Some js \<Rightarrow>
          (case m_token st of
             None \<Rightarrow> (False, st)
           | Some tok \<Rightarrow>
               (case http_client_call H HConnected st of
                  (c, st1) \<Rightarrow>
                    (case (if c \<noteq> 0 then (c, st1)
                           else http_client_call H (HConnect (m_host st1) (m_port st1)) st1) of
                       (up, st2) \<Rightarrow>
                         if up = 0 then (False, http_log ''connect to server failed'' st2)
                         else
                           (case http_client_call H
                                   (HPost (''/api/v1/'' @ tok @ leaf) ''application/json'' js) st2 of
                              (posted, st3) \<Rightarrow>
                                (case (if posted = 0 then (False, st3)
                                       else
                                         (case http_client_call H HResponseStatusCode st3 of
                                            (status, st4) \<Rightarrow> (status = HTTP_SUCCESS H, st4))) of
                                   (rc, st5) \<Rightarrow> (rc, snd (http_client_call H HStop st5))))))))"

definition http_sendTelemetryJson ::
  "'f http_env \<Rightarrow> string option \<Rightarrow> ThingsBoardHttpSized \<Rightarrow> bool \<times> ThingsBoardHttpSized" where
  "http_sendTelemetryJson H json st = http_post_json H ''/telemetry'' json st"

definition http_sendAttributeJSON ::
  "'f http_env \<Rightarrow> string option \<Rightarrow> ThingsBoardHttpSized \<Rightarrow> bool \<times> ThingsBoardHttpSized" where
  "http_sendAttributeJSON H json st = http_post_json H ''/attributes'' json st"

definition http_sendDataArray ::
  "'w::len word \<Rightarrow> 'w word \<Rightarrow> 'f http_env \<Rightarrow> 'f Telemetry list \<Rightarrow> bool \<Rightarrow> ThingsBoardHttpSized
     \<Rightarrow> bool \<times> ThingsBoardHttpSized" where
  "http_sendDataArray PayloadSize MaxFieldsAmt H data telemetry st =
     (if unat MaxFieldsAmt < length data
      then (False, http_log ''too much JSON fields passed'' st)
      else
        (case serialize_records data (to_JsonVariant (unat MaxFieldsAmt)) of
           None \<Rightarrow> (False, http_log ''unable to serialize data'' st)
         | Some object \<Rightarrow>
             if too_small PayloadSize (measureJson (http_float_text H) object)
             then (False, http_log ''too small buffer for JSON data'' st)
             else
               (if telemetry
                then http_sendTelemetryJson H
                       (Some (serializeJson (http_float_text H) object (unat PayloadSize))) st
                else http_sendAttributeJSON H
                       (Some (serializeJson (http_float_text H) object (unat PayloadSize))) st)))"

definition http_sendTelemetry ::
  "'w::len word \<Rightarrow> 'w word \<Rightarrow> 'f http_env \<Rightarrow> 'f Telemetry list \<Rightarrow> ThingsBoardHttpSized
     \<Rightarrow> bool \<times> ThingsBoardHttpSized" where
  "http_sendTelemetry PayloadSize MaxFieldsAmt H data st =
     http_sendDataArray PayloadSize MaxFieldsAmt H data True st"

definition http_sendAttributes ::
  "'w::len word \<Rightarrow> 'w word \<Rightarrow> 'f http_env \<Rightarrow> 'f Telemetry list \<Rightarrow> ThingsBoardHttpSized
     \<Rightarrow> bool \<times> ThingsBoardHttpSized" where
  "http_sendAttributes PayloadSize MaxFieldsAmt H data st =
     http_sendDataArray PayloadSize MaxFieldsAmt H data False st"

section \<open>Concrete environments, states and messages\<close>

text \<open>A broker link that accepts every call, and one that refuses every call.\<close>

definition accepting :: "unit env" where
  "accepting = \<lparr>transport = (\<lambda>calls. True), float_text = (\<lambda>r. ''0.0'')\<rparr>"

definition refusing :: "unit env" where
  "refusing = \<lparr>transport = (\<lambda>calls. False), float_text = (\<lambda>r. ''0.0'')\<rparr>"

definition http_accepting :: "unit http_env" where
  "http_accepting = \<lparr>http = (\<lambda>calls. 1), HTTP_SUCCESS = 0, http_float_text = (\<lambda>r. ''0.0'')\<rparr>"

definition fresh :: "unit ThingsBoardSized" where
  "fresh = \<lparr>m_client = [], m_rpcCallbacks = [], m_subscribedInstance = False,
             logged = [], invoked = []\<rparr>"

definition http_fresh :: ThingsBoardHttpSized where
  "http_fresh = \<lparr>h_client = [], m_host = Some ''demo.thingsboard.io'', m_port = 80,
                  m_token = Some ''TOKEN'', h_logged = []\<rparr>"

text \<open>A handler that answers with the anonymous integer 1, registered as \<open>getValue\<close>,
  and a client subscribed with it.\<close>

definition getValue :: "unit RPC_Callback" where
  "getValue = \<lparr>m_name = ''getValue'', m_cb = Some (\<lambda>data. \<lparr>m_key = None, m_value = TYPE_INT 1\<rparr>)\<rparr>"

definition subscribed :: "unit ThingsBoardSized" where
  "subscribed = \<lparr>m_client = [Subscribe ''v1/devices/me/rpc/request/+'', SetCallback],
                  m_rpcCallbacks = [getValue], m_subscribedInstance = True,
                  logged = [], invoked = []\<rparr>"

definition rpc_message :: "string \<Rightarrow> unit json" where
  "rpc_message methodName = JObject [(''method'', JStr methodName)]"

definition three_records :: "unit Telemetry list" where
  "three_records =
     [\<lparr>m_key = Some ''a'', m_value = TYPE_INT 1\<rparr>,
      \<lparr>m_key = Some ''b'', m_value = TYPE_BOOL True\<rparr>,
      \<lparr>m_key = Some ''c'', m_value = TYPE_STR (Some ''x'')\<rparr>]"

text \<open>The documents that \<open>sendDataArray\<close> builds from \<open>three_records\<close> and that
  \<open>sendKeyval\<close> builds from the key \<open>temperature\<close> and the integer 12345678. The
  compact text of each is 24 bytes long.\<close>

definition abc_object :: "unit JsonDocument" where
  "abc_object =
     \<lparr>capacity = 8, root = JObject [(''a'', JInt 1), (''b'', JBool True), (''c'', JStr ''x'')]\<rparr>"

definition temperature_object :: "unit JsonDocument" where
  "temperature_object = \<lparr>capacity = 1, root = JObject [(''temperature'', JInt 12345678)]\<rparr>"

text \<open>A document with one member slot, which the member \<open>a\<close> occupies.\<close>

definition full_document :: "unit JsonDocument" where
  "full_document = \<lparr>capacity = 1, root = JObject [(''a'', JInt 1)]\<rparr>"

section \<open>Occurrences of the marker in a topic\<close>

text \<open>\<open>occurs f s\<close>: the string \<open>f\<close> is found somewhere in \<open>s\<close>.\<close>

fun occurs :: "string \<Rightarrow> string \<Rightarrow> bool" where
  "occurs f [] = (f = [])"
| "occurs f (c # cs) = (take (length f) (c # cs) = f \<or> occurs f cs)"

text \<open>
  The derivation of the reply channel as the specification words it: only the first
  occurrence of \<open>f\<close> is replaced and the remainder is kept as it is.
\<close>

fun replace_first :: "string \<Rightarrow> string \<Rightarrow> string \<Rightarrow> string" where
  "replace_first f r [] = []"
| "replace_first f r (c # cs) =
     (if f \<noteq> [] \<and> take (length f) (c # cs) = f
      then r @ drop (length f) (c # cs)
      else c # replace_first f r cs)"

section \<open>Basic facts\<close>

declare dec_nat.simps [simp del]

lemma m_client_log [simp]: "m_client (log msg st) = m_client st"
  by (simp add: log_def)

lemma invoked_log [simp]: "invoked (log msg st) = invoked st"
  by (simp add: log_def)

lemma m_rpcCallbacks_log [simp]: "m_rpcCallbacks (log msg st) = m_rpcCallbacks st"
  by (simp add: log_def)

lemma m_subscribedInstance_log [simp]: "m_subscribedInstance (log msg st) = m_subscribedInstance st"
  by (simp add: log_def)

lemma h_client_http_log [simp]: "h_client (http_log msg st) = h_client st"
  by (simp add: http_log_def)

lemma snd_client_call:
  "snd (client_call E c st) = st\<lparr>m_client := m_client st @ [c]\<rparr>"
  by (simp add: client_call_def)

lemma fst_client_call:
  "fst (client_call E c st) = transport E (m_client st @ [c])"
  by (simp add: client_call_def)

lemma too_small_iff:
  "PayloadSize \<noteq> 0 \<Longrightarrow> too_small PayloadSize n \<longleftrightarrow> unat PayloadSize \<le> n"
proof -
  assume nz: "PayloadSize \<noteq> 0"
  then have pos: "0 < unat PayloadSize"
    by (simp add: unat_gt_0)
  have "unat (PayloadSize - 1) = unat PayloadSize - 1"
    using nz by (rule unat_minus_one)
  with pos show ?thesis
    by (auto simp: too_small_def)
qed

text \<open>At \<open>PayloadSize = 0\<close> the subtraction wraps and the test rejects nothing.\<close>

lemma too_small_at_zero:
  assumes "n < 2 ^ LENGTH('w)"
  shows "\<not> too_small (0 :: 'w::len word) n"
proof -
  have "unat (0 - 1 :: 'w word) = 2 ^ LENGTH('w) - 1"
    by (simp add: unsigned_minus_1_eq_mask mask_eq_exp_minus_1)
  with assms show ?thesis
    by (simp add: too_small_def)
qed

lemma serializeJson_fits:
  assumes "PayloadSize \<noteq> 0" and "\<not> too_small PayloadSize (measureJson fr d)"
  shows "serializeJson fr d (unat PayloadSize) = json_text fr (root d)"
proof -
  from assms have "measureJson fr d < unat PayloadSize"
    by (simp add: too_small_iff)
  then have "length (json_text fr (root d)) \<le> unat PayloadSize - 1"
    by (simp add: measureJson_def)
  then show ?thesis
    by (simp add: serializeJson_def)
qed

lemma serializeKeyval_ok: "fst (serializeKeyval t d) = True"
  by (simp add: serializeKeyval_def set_variant_def split: option.split data.split)

lemma serialize_records_total: "\<exists>object. serialize_records data d = Some object"
proof (induction data arbitrary: d)
  case Nil
  show ?case by simp
next
  case (Cons t ts)
  obtain ok d' where step: "serializeKeyval t d = (ok, d')"
    by (cases "serializeKeyval t d")
  with serializeKeyval_ok [of t d] have "ok" by simp
  with step Cons.IH [of d'] show ?case by simp
qed

lemma publish_after_size_check:
  assumes "PayloadSize \<noteq> 0"
  shows "(if too_small PayloadSize (measureJson (float_text E) object)
          then (False, log ''too small buffer for JSON data'' st)
          else (if telemetry
                then sendTelemetryJson E (serializeJson (float_text E) object (unat PayloadSize)) st
                else sendAttributeJSON E (serializeJson (float_text E) object (unat PayloadSize)) st))
       = (if measureJson (float_text E) object \<le> unat PayloadSize - 1
          then client_call E
                 (Publish (if telemetry then ''v1/devices/me/telemetry''
                           else ''v1/devices/me/attributes'')
                    (json_text (float_text E) (root object))) st
          else (False, log ''too small buffer for JSON data'' st))"
proof (cases "too_small PayloadSize (measureJson (float_text E) object)")
  case True
  with assms have "\<not> measureJson (float_text E) object \<le> unat PayloadSize - 1"
    by (simp add: too_small_iff unat_gt_0 [symmetric])
  with True show ?thesis by simp
next
  case False
  with assms have le: "measureJson (float_text E) object \<le> unat PayloadSize - 1"
    by (simp add: too_small_iff)
  from assms False have "serializeJson (float_text E) object (unat PayloadSize)
      = json_text (float_text E) (root object)"
    by (rule serializeJson_fits)
  with False le show ?thesis
    by (simp add: sendTelemetryJson_def sendAttributeJSON_def)
qed

lemma three_records_object:
  "serialize_records three_records (to_JsonVariant (unat (8 :: 32 word))) = Some abc_object"
  by (simp add: three_records_def serializeKeyval_def assign_member_def to_JsonVariant_def
      cstr_json_def abc_object_def)

lemma temperature_keyval:
  "serializeKeyval \<lparr>m_key = Some ''temperature'', m_value = TYPE_INT 12345678\<rparr>
       (to_JsonVariant 1) = (True, temperature_object)"
  by (simp add: serializeKeyval_def assign_member_def to_JsonVariant_def temperature_object_def)

lemma abc_measure: "measureJson (float_text accepting) abc_object = 24"
  by (simp add: measureJson_def abc_object_def quoted_def escape_char_def dec_int_def
      dec_nat.simps digit_char_def)

lemma temperature_measure: "measureJson (float_text accepting) temperature_object = 24"
  by (simp add: measureJson_def temperature_object_def quoted_def escape_char_def dec_int_def
      dec_nat.simps digit_char_def)

lemma transport_accepting: "transport accepting calls = True"
  by (simp add: accepting_def)

lemma measure_null: "measureJson fr (to_JsonVariant n) = 4"
  by (simp add: measureJson_def to_JsonVariant_def)

section \<open>Serializing one record\<close>

text \<open>
  Claim C3: for a record with a key, \<open>serializeKeyval\<close> should report failure exactly
  when the assignment of the field failed. The branch for a present key returns success
  whatever the assignment did, while the branch for an absent key returns the flag of
  \<open>set\<close>. Evaluated here: the member \<open>b\<close> does not fit into a document whose only slot
  is taken, the document is left as it was and the result is success; and an array of an
  anonymous integer followed by a keyed record is sent as \<open>5\<close>, with result success,
  the keyed field being lost.
\<close>

theorem keyed_assignment_failure_unreported:
  "\<not> fst (assign_member ''b'' (JBool True) full_document) \<and>
   serializeKeyval \<lparr>m_key = Some ''b'', m_value = TYPE_BOOL True\<rparr> full_document =
     (True, full_document) \<and>
   sendTelemetry (64 :: 32 word) 8 accepting
       [\<lparr>m_key = None, m_value = TYPE_INT 5\<rparr>, \<lparr>m_key = Some ''a'', m_value = TYPE_BOOL True\<rparr>]
       fresh =
     (True, fresh\<lparr>m_client := [Publish ''v1/devices/me/telemetry'' ''5'']\<rparr>)"
  by (simp add: assign_member_def full_document_def serializeKeyval_def set_variant_def
      sendTelemetry_def sendDataArray_def to_JsonVariant_def too_small_def measureJson_def
      dec_int_def dec_nat.simps digit_char_def serializeJson_def sendTelemetryJson_def
      client_call_def transport_accepting fresh_def)

section \<open>The bounded serializer\<close>

text \<open>
  Claim C4: an array of more than \<open>MaxFieldsAmt\<close> records is rejected by the aggregated
  send operations of both clients, \<open>sendTelemetry\<close> and \<open>sendAttributes\<close> through
  \<open>sendDataArray\<close>: the result is failure, one line is logged, and the list of calls made
  on the transport client is what it was.
\<close>

theorem too_many_fields_rejected:
  assumes "unat MaxFieldsAmt < length data"
  shows "sendDataArray PayloadSize MaxFieldsAmt E data telemetry st =
           (False, log ''too much JSON fields passed'' st) \<and>
         sendTelemetry PayloadSize MaxFieldsAmt E data st =
           (False, log ''too much JSON fields passed'' st) \<and>
         sendAttributes PayloadSize MaxFieldsAmt E data st =
           (False, log ''too much JSON fields passed'' st) \<and>
         m_client (log ''too much JSON fields passed'' st) = m_client st \<and>
         http_sendDataArray PayloadSize MaxFieldsAmt H data telemetry hst =
           (False, http_log ''too much JSON fields passed'' hst) \<and>
         http_sendTelemetry PayloadSize MaxFieldsAmt H data hst =
           (False, http_log ''too much JSON fields passed'' hst) \<and>
         http_sendAttributes PayloadSize MaxFieldsAmt H data hst =
           (False, http_log ''too much JSON fields passed'' hst) \<and>
         h_client (http_log ''too much JSON fields passed'' hst) = h_client hst"
proof -
  from assms have mqtt: "sendDataArray PayloadSize MaxFieldsAmt E data flag st =
      (False, log ''too much JSON fields passed'' st)" for flag
    by (simp add: sendDataArray_def)
  from assms have http: "http_sendDataArray PayloadSize MaxFieldsAmt H data flag hst =
      (False, http_log ''too much JSON fields passed'' hst)" for flag
    by (simp add: http_sendDataArray_def)
  show ?thesis
    by (simp add: mqtt http sendTelemetry_def sendAttributes_def
        http_sendTelemetry_def http_sendAttributes_def)
qed

theorem too_many_fields_rejected_witness:
  "unat (2 :: 32 word) < length three_records \<and>
   sendTelemetry (64 :: 32 word) 2 accepting three_records fresh =
     (False, log ''too much JSON fields passed'' fresh) \<and>
   sendAttributes (64 :: 32 word) 2 accepting three_records fresh =
     (False, log ''too much JSON fields passed'' fresh) \<and>
   m_client (snd (sendTelemetry (64 :: 32 word) 2 accepting three_records fresh)) = [] \<and>
   http_sendTelemetry (64 :: 32 word) 2 http_accepting three_records http_fresh =
     (False, http_log ''too much JSON fields passed'' http_fresh) \<and>
   http_sendAttributes (64 :: 32 word) 2 http_accepting three_records http_fresh =
     (False, http_log ''too much JSON fields passed'' http_fresh) \<and>
   h_client (snd (http_sendTelemetry (64 :: 32 word) 2 http_accepting three_records http_fresh)) = []"
proof -
  have h: "unat (2 :: 32 word) < length three_records"
    by (simp add: three_records_def)
  show ?thesis
    using h too_many_fields_rejected [OF h, of 64 accepting True fresh http_accepting http_fresh]
    by (simp add: fresh_def http_fresh_def)
qed

text \<open>
  Claim C5: the size boundary is exact, in \<open>sendDataArray\<close> and in \<open>sendKeyval\<close>. With
  \<open>PayloadSize\<close> at least 1, as the buffer \<open>char payload[PayloadSize]\<close> needs, and a
  document whose compact text measures \<open>n\<close> bytes: when \<open>n \<le> PayloadSize - 1\<close> the whole
  text, not a prefix of it, is published on the telemetry or attribute channel and the
  result is the transport's; when \<open>n \<ge> PayloadSize\<close> the result is failure and no call is
  made on the transport. So \<open>n = PayloadSize - 1\<close> passes and \<open>n = PayloadSize\<close> fails.
\<close>

theorem payload_size_boundary:
  assumes "PayloadSize \<noteq> 0"
    and "length data \<le> unat MaxFieldsAmt"
    and "serialize_records data (to_JsonVariant (unat MaxFieldsAmt)) = Some object"
    and "serializeKeyval \<lparr>m_key = key, m_value = val\<rparr> (to_JsonVariant 1) = (True, object1)"
  shows "sendDataArray PayloadSize MaxFieldsAmt E data telemetry st =
           (if measureJson (float_text E) object \<le> unat PayloadSize - 1
            then client_call E
                   (Publish (if telemetry then ''v1/devices/me/telemetry''
                             else ''v1/devices/me/attributes'')
                      (json_text (float_text E) (root object))) st
            else (False, log ''too small buffer for JSON data'' st)) \<and>
         sendKeyval PayloadSize MaxFieldsAmt E key val telemetry st =
           (if measureJson (float_text E) object1 \<le> unat PayloadSize - 1
            then client_call E
                   (Publish (if telemetry then ''v1/devices/me/telemetry''
                             else ''v1/devices/me/attributes'')
                      (json_text (float_text E) (root object1))) st
            else (False, log ''too small buffer for JSON data'' st))"
proof
  from assms(2) have "\<not> unat MaxFieldsAmt < length data" by simp
  with assms(3) show "sendDataArray PayloadSize MaxFieldsAmt E data telemetry st =
           (if measureJson (float_text E) object \<le> unat PayloadSize - 1
            then client_call E
                   (Publish (if telemetry then ''v1/devices/me/telemetry''
                             else ''v1/devices/me/attributes'')
                      (json_text (float_text E) (root object))) st
            else (False, log ''too small buffer for JSON data'' st))"
    unfolding sendDataArray_def
    by (simp only: if_False option.case publish_after_size_check [OF assms(1)])
next
  from assms(4) show "sendKeyval PayloadSize MaxFieldsAmt E key val telemetry st =
           (if measureJson (float_text E) object1 \<le> unat PayloadSize - 1
            then client_call E
                   (Publish (if telemetry then ''v1/devices/me/telemetry''
                             else ''v1/devices/me/attributes'')
                      (json_text (float_text E) (root object1))) st
            else (False, log ''too small buffer for JSON data'' st))"
    unfolding sendKeyval_def
    by (simp only: prod.case not_True_eq_False if_False publish_after_size_check [OF assms(1)])
qed

theorem payload_size_boundary_witness:
  "sendDataArray (25 :: 32 word) 8 accepting three_records True fresh =
     (True, fresh\<lparr>m_client := [Publish ''v1/devices/me/telemetry''
        (json_text (float_text accepting) (root abc_object))]\<rparr>) \<and>
   sendKeyval (25 :: 32 word) 8 accepting (Some ''temperature'') (TYPE_INT 12345678) True fresh =
     (True, fresh\<lparr>m_client := [Publish ''v1/devices/me/telemetry''
        (json_text (float_text accepting) (root temperature_object))]\<rparr>) \<and>
   sendDataArray (24 :: 32 word) 8 accepting three_records True fresh =
     (False, log ''too small buffer for JSON data'' fresh) \<and>
   sendKeyval (24 :: 32 word) 8 accepting (Some ''temperature'') (TYPE_INT 12345678) True fresh =
     (False, log ''too small buffer for JSON data'' fresh)"
proof -
  have nz25: "(25 :: 32 word) \<noteq> 0" and nz24: "(24 :: 32 word) \<noteq> 0"
    by simp_all
  have len: "length three_records \<le> unat (8 :: 32 word)"
    by (simp add: three_records_def)
  have empty: "m_client fresh = []"
    by (simp add: fresh_def)
  show ?thesis
    using payload_size_boundary [OF nz25 len three_records_object temperature_keyval,
        of accepting True fresh]
      payload_size_boundary [OF nz24 len three_records_object temperature_keyval,
        of accepting True fresh]
    by (simp add: abc_measure temperature_measure client_call_def transport_accepting empty)
qed

text \<open>
  Claim C9, as amended: \<open>sendDataArray\<close> with no record is not rejected by the count
  check; the loop serializes nothing, so the root variant is still null and is rendered as
  \<open>null\<close>, four bytes, not as \<open>{}\<close>; with \<open>PayloadSize\<close> at least 5 the text passes the
  size check and the result is the transport's answer to the publish call.
\<close>

theorem empty_array_sends_null:
  assumes "5 \<le> unat PayloadSize"
  shows "sendDataArray PayloadSize MaxFieldsAmt E [] telemetry st =
           client_call E
             (Publish (if telemetry then ''v1/devices/me/telemetry''
                       else ''v1/devices/me/attributes'') ''null'') st"
proof -
  from assms have nz: "PayloadSize \<noteq> 0"
    by auto
  have "sendDataArray PayloadSize MaxFieldsAmt E [] telemetry st =
      (if measureJson (float_text E) (to_JsonVariant (unat MaxFieldsAmt)) \<le> unat PayloadSize - 1
       then client_call E
              (Publish (if telemetry then ''v1/devices/me/telemetry''
                        else ''v1/devices/me/attributes'')
                 (json_text (float_text E) (root (to_JsonVariant (unat MaxFieldsAmt))))) st
       else (False, log ''too small buffer for JSON data'' st))"
    unfolding sendDataArray_def
    by (simp add: publish_after_size_check [OF nz])
  moreover from assms have "4 \<le> unat PayloadSize - 1"
    by simp
  ultimately show ?thesis
    by (simp add: measureJson_def to_JsonVariant_def)
qed

theorem empty_array_sends_null_witness:
  "5 \<le> unat (64 :: 32 word) \<and>
   sendDataArray (64 :: 32 word) 8 accepting [] True fresh =
     (True, fresh\<lparr>m_client := [Publish ''v1/devices/me/telemetry'' ''null'']\<rparr>)"
proof -
  have h: "5 \<le> unat (64 :: 32 word)" by simp
  show ?thesis
    using h empty_array_sends_null [OF h, of 8 accepting True fresh]
    by (simp add: client_call_def transport_accepting fresh_def)
qed

text \<open>
  Claim C9 as stated fails: with \<open>PayloadSize = 3\<close> and a transport that accepts every
  call, the result is failure, which is not the transport's answer to a publish of \<open>{}\<close>;
  and with \<open>PayloadSize = 64\<close> the payload that is published is \<open>null\<close>.
\<close>

theorem empty_array_counterexample:
  "fst (sendDataArray (3 :: 32 word) 8 accepting [] True fresh) \<noteq>
     transport accepting (m_client fresh @ [Publish ''v1/devices/me/telemetry'' ''{}'']) \<and>
   m_client (snd (sendDataArray (64 :: 32 word) 8 accepting [] True fresh)) =
     [Publish ''v1/devices/me/telemetry'' ''null'']"
  by (simp add: sendDataArray_def measureJson_def too_small_def transport_accepting
      sendTelemetryJson_def client_call_def serializeJson_def to_JsonVariant_def fresh_def)

section \<open>Connecting and unsubscribing\<close>

text \<open>
  Claim C6, as amended: \<open>connect\<close> returns failure and leaves the state as it was when
  the host or the access token is missing. With both present, \<open>RPC_Unsubscribe\<close> runs
  before the connection attempt: whatever the transport answers, so also when it refuses,
  the subscribed flag is false afterwards, the transport client has seen \<open>unsubscribe\<close>,
  \<open>setServer\<close> and \<open>connect\<close>, the result is the transport's answer to \<open>connect\<close>,
  and the handler registry and all else is unchanged.
\<close>

theorem connect_outcomes:
  "connect E None access_token port st = (False, st) \<and>
   connect E host None port st = (False, st) \<and>
   connect E (Some h) (Some tok) port st =
     (transport E (m_client st @ [Unsubscribe ''v1/devices/me/rpc/request/+'',
                                  SetServer h port, Connect ''TbDev'' tok None]),
      st\<lparr>m_subscribedInstance := False,
         m_client := m_client st @ [Unsubscribe ''v1/devices/me/rpc/request/+'',
                                    SetServer h port, Connect ''TbDev'' tok None]\<rparr>)"
  by (simp add: connect_def RPC_Unsubscribe_def client_call_def split: option.split)

text \<open>
  Claim C6 as stated fails: a subscribed client whose transport refuses the connection
  gets failure from \<open>connect\<close> and is no longer subscribed.
\<close>

theorem connect_failure_counterexample:
  "RPC_Subscribed subscribed \<and>
   \<not> fst (connect refusing (Some ''demo.thingsboard.io'') (Some ''TOKEN'') 1883 subscribed) \<and>
   \<not> RPC_Subscribed
        (snd (connect refusing (Some ''demo.thingsboard.io'') (Some ''TOKEN'') 1883 subscribed))"
  by (simp add: RPC_Subscribed_def connect_def RPC_Unsubscribe_def client_call_def
      refusing_def subscribed_def)

text \<open>
  Claim C10: after \<open>RPC_Unsubscribe\<close> the function \<open>RPC_Subscribed\<close> returns false,
  whatever the transport answered, and the result of \<open>RPC_Unsubscribe\<close> is the
  transport's answer to the \<open>unsubscribe\<close> call.
\<close>

theorem RPC_Unsubscribe_clears_flag:
  "RPC_Subscribed (snd (RPC_Unsubscribe E st)) = False \<and>
   fst (RPC_Unsubscribe E st) =
     transport E (m_client st @ [Unsubscribe ''v1/devices/me/rpc/request/+''])"
  by (simp add: RPC_Subscribed_def RPC_Unsubscribe_def client_call_def)

section \<open>Dispatching inbound RPC messages\<close>

text \<open>
  Claim C8: a message that decodes as JSON but has no text member \<open>method\<close> (the member
  is missing, is not a string, or the document is not an object) is dropped: one line is
  logged, no handler is called and nothing is published.
\<close>

theorem missing_method_dropped:
  assumes "as_cstr (get_member data ''method'') = None"
  shows "process_message PayloadSize MaxFieldsAmt E topic (Inr data) st =
           log ''RPC method is nullptr'' st \<and>
         invoked (process_message PayloadSize MaxFieldsAmt E topic (Inr data) st) = invoked st \<and>
         m_client (process_message PayloadSize MaxFieldsAmt E topic (Inr data) st) = m_client st"
  using assms by (simp add: process_message_def)

theorem missing_method_dropped_witness:
  "as_cstr (get_member (JObject [(''params'', JInt 5)] :: unit json) ''method'') = None \<and>
   process_message (64 :: 32 word) 8 accepting ''v1/devices/me/rpc/request/7''
       (Inr (JObject [(''params'', JInt 5)])) subscribed =
     log ''RPC method is nullptr'' subscribed \<and>
   invoked (process_message (64 :: 32 word) 8 accepting ''v1/devices/me/rpc/request/7''
       (Inr (JObject [(''params'', JInt 5)])) subscribed) = [] \<and>
   m_client (process_message (64 :: 32 word) 8 accepting ''v1/devices/me/rpc/request/7''
       (Inr (JObject [(''params'', JInt 5)])) subscribed) =
     [Subscribe ''v1/devices/me/rpc/request/+'', SetCallback]"
proof -
  have h: "as_cstr (get_member (JObject [(''params'', JInt 5)] :: unit json) ''method'') = None"
    by (simp add: as_cstr_def get_member_def members_def)
  show ?thesis
    using h missing_method_dropped [OF h, of 64 8 accepting "''v1/devices/me/rpc/request/7''" subscribed]
    by (simp add: subscribed_def)
qed

subsection \<open>The handler loop\<close>

lemma call_first_match_none:
  assumes "\<forall>cb \<in> set cbs. m_cb cb = None \<or> m_name cb \<noteq> methodName"
  shows "call_first_match cbs i methodName data st = (Telemetry_default, st)"
  using assms
proof (induction cbs arbitrary: i)
  case Nil
  show ?case by simp
next
  case (Cons cb cbs)
  then show ?case
    by (cases "m_cb cb") auto
qed

lemma call_first_match_first:
  assumes "i < length cbs" and "m_cb (cbs ! i) = Some h" and "m_name (cbs ! i) = methodName"
  shows "\<exists>j \<le> i. \<exists>g. m_cb (cbs ! j) = Some g \<and> m_name (cbs ! j) = methodName \<and>
           (\<forall>k < j. m_cb (cbs ! k) = None \<or> m_name (cbs ! k) \<noteq> methodName) \<and>
           call_first_match cbs n methodName data st =
             (g (get_member data ''params''),
              (if \<not> containsKey data ''params''
               then log ''no parameters passed with RPC, passing nullptr JSON''
                      (log methodName (log ''calling RPC:'' st))
               else log methodName (log ''calling RPC:'' st))
              \<lparr>invoked := invoked st @ [(n + j, get_member data ''params'')]\<rparr>)"
  using assms
proof (induction cbs arbitrary: i n)
  case Nil
  then show ?case by simp
next
  case (Cons cb cbs)
  show ?case
  proof (cases "\<exists>g. m_cb cb = Some g \<and> m_name cb = methodName")
    case True
    then obtain g where g: "m_cb cb = Some g" "m_name cb = methodName"
      by blast
    then have "m_cb ((cb # cbs) ! 0) = Some g \<and> m_name ((cb # cbs) ! 0) = methodName \<and>
           (\<forall>k < (0::nat). m_cb ((cb # cbs) ! k) = None \<or> m_name ((cb # cbs) ! k) \<noteq> methodName) \<and>
           call_first_match (cb # cbs) n methodName data st =
             (g (get_member data ''params''),
              (if \<not> containsKey data ''params''
               then log ''no parameters passed with RPC, passing nullptr JSON''
                      (log methodName (log ''calling RPC:'' st))
               else log methodName (log ''calling RPC:'' st))
              \<lparr>invoked := invoked st @ [(n + 0, get_member data ''params'')]\<rparr>)"
      by simp
    then show ?thesis
      by blast
  next
    case False
    then have nomatch: "m_cb cb = None \<or> m_name cb \<noteq> methodName"
      by (cases "m_cb cb") auto
    then have skip: "call_first_match (cb # cbs) n methodName data st =
        call_first_match cbs (Suc n) methodName data st"
      by (cases "m_cb cb") auto
    from False Cons.prems obtain i' where i': "i = Suc i'"
      by (cases i) auto
    with Cons.prems have "i' < length cbs" "m_cb (cbs ! i') = Some h"
      "m_name (cbs ! i') = methodName"
      by simp_all
    from Cons.IH [OF this, of "Suc n"] obtain j g where
      j: "j \<le> i'" "m_cb (cbs ! j) = Some g" "m_name (cbs ! j) = methodName"
         "\<forall>k < j. m_cb (cbs ! k) = None \<or> m_name (cbs ! k) \<noteq> methodName"
         "call_first_match cbs (Suc n) methodName data st =
             (g (get_member data ''params''),
              (if \<not> containsKey data ''params''
               then log ''no parameters passed with RPC, passing nullptr JSON''
                      (log methodName (log ''calling RPC:'' st))
               else log methodName (log ''calling RPC:'' st))
              \<lparr>invoked := invoked st @ [(Suc n + j, get_member data ''params'')]\<rparr>)"
      by blast
    have before: "\<forall>k < Suc j. m_cb ((cb # cbs) ! k) = None \<or> m_name ((cb # cbs) ! k) \<noteq> methodName"
    proof (intro allI impI)
      fix k assume "k < Suc j"
      show "m_cb ((cb # cbs) ! k) = None \<or> m_name ((cb # cbs) ! k) \<noteq> methodName"
      proof (cases k)
        case 0
        with nomatch show ?thesis by simp
      next
        case (Suc k')
        with \<open>k < Suc j\<close> j(4) show ?thesis by simp
      qed
    qed
    from j skip i' have "Suc j \<le> i \<and> m_cb ((cb # cbs) ! Suc j) = Some g \<and>
           m_name ((cb # cbs) ! Suc j) = methodName \<and>
           call_first_match (cb # cbs) n methodName data st =
             (g (get_member data ''params''),
              (if \<not> containsKey data ''params''
               then log ''no parameters passed with RPC, passing nullptr JSON''
                      (log methodName (log ''calling RPC:'' st))
               else log methodName (log ''calling RPC:'' st))
              \<lparr>invoked := invoked st @ [(n + Suc j, get_member data ''params'')]\<rparr>)"
      by simp
    with before show ?thesis
      by blast
  qed
qed

text \<open>What \<open>process_message\<close> does with the response \<open>r\<close> of the loop.\<close>

lemma process_message_after_loop:
  assumes "as_cstr (get_member data ''method'') = Some methodName"
    and "call_first_match (m_rpcCallbacks st) 0 methodName data
           (log methodName (log ''received RPC:'' st)) = (r, st1)"
  shows "process_message PayloadSize MaxFieldsAmt E topic (Inr data) st =
           (if too_small PayloadSize
                 (measureJson (float_text E) (snd (serializeKeyval r (to_JsonVariant 1))))
            then log ''too small buffer for JSON data'' st1
            else snd (client_call E
                   (Publish (responseTopic topic)
                      (serializeJson (float_text E) (snd (serializeKeyval r (to_JsonVariant 1)))
                         (unat PayloadSize)))
                   (log (serializeJson (float_text E) (snd (serializeKeyval r (to_JsonVariant 1)))
                           (unat PayloadSize))
                      (log ''response:'' st1))))"
proof -
  obtain ok resp where s: "serializeKeyval r (to_JsonVariant 1) = (ok, resp)"
    by (cases "serializeKeyval r (to_JsonVariant 1)")
  with serializeKeyval_ok [of r "to_JsonVariant 1"] have "ok"
    by simp
  with s assms show ?thesis
    by (simp add: process_message_def)
qed

lemma get_member_absent: "\<not> containsKey data k \<Longrightarrow> get_member data k = JNull"
  by (simp add: containsKey_def get_member_def)

lemma serializeKeyval_default: "serializeKeyval Telemetry_default d = (True, d)"
  by (simp add: serializeKeyval_def Telemetry_default_def)

lemma call_first_match_m_client:
  "m_client (snd (call_first_match cbs n methodName data st)) = m_client st"
  by (induction cbs arbitrary: n) (auto simp: log_def split: option.split)

text \<open>
  Claim C7: when the text member \<open>method\<close> equals the name of a registered entry that has
  a callback and the message has no member \<open>params\<close>, the message is not dropped. The
  first entry with a callback and that name is the one called, exactly once, and its
  callback \<open>g\<close> is applied to the null variant: the response of the loop is \<open>g JNull\<close>.
  The lines logged are those of a call, with the remark about the missing parameters, and
  the reply that is published on the reply channel, when it passes the size check, is the
  text of \<open>g JNull\<close>.
\<close>

theorem handler_called_without_params:
  assumes "as_cstr (get_member data ''method'') = Some methodName"
    and "\<not> containsKey data ''params''"
    and "i < length (m_rpcCallbacks st)"
    and "m_cb (m_rpcCallbacks st ! i) = Some h"
    and "m_name (m_rpcCallbacks st ! i) = methodName"
  shows "\<exists>j \<le> i. \<exists>g. m_cb (m_rpcCallbacks st ! j) = Some g \<and>
           m_name (m_rpcCallbacks st ! j) = methodName \<and>
           (\<forall>k < j. m_cb (m_rpcCallbacks st ! k) = None \<or>
                      m_name (m_rpcCallbacks st ! k) \<noteq> methodName) \<and>
           fst (call_first_match (m_rpcCallbacks st) 0 methodName data
                  (log methodName (log ''received RPC:'' st))) = g JNull \<and>
           invoked (process_message PayloadSize MaxFieldsAmt E topic (Inr data) st) =
             invoked st @ [(j, JNull)] \<and>
           logged (process_message PayloadSize MaxFieldsAmt E topic (Inr data) st) =
             logged st @ [''received RPC:'', methodName, ''calling RPC:'', methodName,
                          ''no parameters passed with RPC, passing nullptr JSON''] @
               (if too_small PayloadSize
                     (measureJson (float_text E) (snd (serializeKeyval (g JNull) (to_JsonVariant 1))))
                then [''too small buffer for JSON data'']
                else [''response:'',
                      serializeJson (float_text E)
                        (snd (serializeKeyval (g JNull) (to_JsonVariant 1))) (unat PayloadSize)]) \<and>
           m_client (process_message PayloadSize MaxFieldsAmt E topic (Inr data) st) =
             (if too_small PayloadSize
                   (measureJson (float_text E) (snd (serializeKeyval (g JNull) (to_JsonVariant 1))))
              then m_client st
              else m_client st @
                   [Publish (responseTopic topic)
                      (serializeJson (float_text E)
                         (snd (serializeKeyval (g JNull) (to_JsonVariant 1))) (unat PayloadSize))])"
proof -
  let ?st0 = "log methodName (log ''received RPC:'' st)"
  have null: "get_member data ''params'' = JNull"
    using assms(2) by (rule get_member_absent)
  from call_first_match_first [OF assms(3,4,5), of 0 data ?st0]
  obtain j g where j: "j \<le> i" "m_cb (m_rpcCallbacks st ! j) = Some g"
    "m_name (m_rpcCallbacks st ! j) = methodName"
    "\<forall>k < j. m_cb (m_rpcCallbacks st ! k) = None \<or> m_name (m_rpcCallbacks st ! k) \<noteq> methodName"
    and loop: "call_first_match (m_rpcCallbacks st) 0 methodName data ?st0 =
       (g JNull,
        (log ''no parameters passed with RPC, passing nullptr JSON''
           (log methodName (log ''calling RPC:'' ?st0)))
        \<lparr>invoked := invoked ?st0 @ [(j, JNull)]\<rparr>)"
    using assms(2) null by auto
  note after = process_message_after_loop [OF assms(1) loop, of PayloadSize MaxFieldsAmt E topic]
  have a: "fst (call_first_match (m_rpcCallbacks st) 0 methodName data ?st0) = g JNull"
    using loop by simp
  have b: "invoked (process_message PayloadSize MaxFieldsAmt E topic (Inr data) st) =
      invoked st @ [(j, JNull)]"
    unfolding after by (simp add: client_call_def log_def)
  have c: "logged (process_message PayloadSize MaxFieldsAmt E topic (Inr data) st) =
             logged st @ [''received RPC:'', methodName, ''calling RPC:'', methodName,
                          ''no parameters passed with RPC, passing nullptr JSON''] @
               (if too_small PayloadSize
                     (measureJson (float_text E) (snd (serializeKeyval (g JNull) (to_JsonVariant 1))))
                then [''too small buffer for JSON data'']
                else [''response:'',
                      serializeJson (float_text E)
                        (snd (serializeKeyval (g JNull) (to_JsonVariant 1))) (unat PayloadSize)])"
    unfolding after by (simp add: client_call_def log_def)
  have d: "m_client (process_message PayloadSize MaxFieldsAmt E topic (Inr data) st) =
             (if too_small PayloadSize
                   (measureJson (float_text E) (snd (serializeKeyval (g JNull) (to_JsonVariant 1))))
              then m_client st
              else m_client st @
                   [Publish (responseTopic topic)
                      (serializeJson (float_text E)
                         (snd (serializeKeyval (g JNull) (to_JsonVariant 1))) (unat PayloadSize))])"
    unfolding after by (simp add: client_call_def log_def)
  from j a b c d show ?thesis
    by blast
qed


theorem handler_called_without_params_witness:
  "as_cstr (get_member (rpc_message ''getValue'') ''method'') = Some ''getValue'' \<and>
   \<not> containsKey (rpc_message ''getValue'') ''params'' \<and>
   m_name (m_rpcCallbacks subscribed ! 0) = ''getValue'' \<and>
   invoked (process_message (64 :: 32 word) 8 accepting ''v1/devices/me/rpc/request/42''
              (Inr (rpc_message ''getValue'')) subscribed) = [(0, JNull)] \<and>
   m_client (process_message (64 :: 32 word) 8 accepting ''v1/devices/me/rpc/request/42''
              (Inr (rpc_message ''getValue'')) subscribed) =
     [Subscribe ''v1/devices/me/rpc/request/+'', SetCallback,
      Publish ''v1/devices/me/rpc/response/42'' ''1'']"
proof -
  have h1: "as_cstr (get_member (rpc_message ''getValue'') ''method'') = Some ''getValue''"
    by (simp add: as_cstr_def get_member_def members_def rpc_message_def)
  have h2: "\<not> containsKey (rpc_message ''getValue'') ''params''"
    by (simp add: containsKey_def members_def rpc_message_def)
  have h3: "0 < length (m_rpcCallbacks subscribed)"
    by (simp add: subscribed_def)
  have h4: "m_cb (m_rpcCallbacks subscribed ! 0) =
      Some (\<lambda>data. \<lparr>m_key = None, m_value = TYPE_INT 1\<rparr>)"
    by (simp add: subscribed_def getValue_def)
  have h5: "m_name (m_rpcCallbacks subscribed ! 0) = ''getValue''"
    by (simp add: subscribed_def getValue_def)
  from handler_called_without_params [OF h1 h2 h3 h4 h5, of 64 8 accepting
      "''v1/devices/me/rpc/request/42''"]
  obtain j g where j: "j \<le> 0" and g: "m_cb (m_rpcCallbacks subscribed ! j) = Some g"
    and inv: "invoked (process_message (64 :: 32 word) 8 accepting ''v1/devices/me/rpc/request/42''
                (Inr (rpc_message ''getValue'')) subscribed) = invoked subscribed @ [(j, JNull)]"
    and pub: "m_client (process_message (64 :: 32 word) 8 accepting ''v1/devices/me/rpc/request/42''
                (Inr (rpc_message ''getValue'')) subscribed) =
             (if too_small (64 :: 32 word)
                   (measureJson (float_text accepting)
                      (snd (serializeKeyval (g JNull) (to_JsonVariant 1))))
              then m_client subscribed
              else m_client subscribed @
                   [Publish (responseTopic ''v1/devices/me/rpc/request/42'')
                      (serializeJson (float_text accepting)
                         (snd (serializeKeyval (g JNull) (to_JsonVariant 1)))
                         (unat (64 :: 32 word)))])"
    by blast
  from j g h4 have reply: "g JNull = \<lparr>m_key = None, m_value = TYPE_INT 1\<rparr>"
    by auto
  have doc: "snd (serializeKeyval \<lparr>m_key = None, m_value = TYPE_INT 1\<rparr> (to_JsonVariant 1)) =
      \<lparr>capacity = 1, root = JInt 1 :: unit json\<rparr>"
    by (simp add: serializeKeyval_def set_variant_def to_JsonVariant_def)
  from j inv have a: "invoked (process_message (64 :: 32 word) 8 accepting
      ''v1/devices/me/rpc/request/42'' (Inr (rpc_message ''getValue'')) subscribed) = [(0, JNull)]"
    by (simp add: subscribed_def)
  from pub have b: "m_client (process_message (64 :: 32 word) 8 accepting
      ''v1/devices/me/rpc/request/42'' (Inr (rpc_message ''getValue'')) subscribed) =
     [Subscribe ''v1/devices/me/rpc/request/+'', SetCallback,
      Publish ''v1/devices/me/rpc/response/42'' ''1'']"
    unfolding reply doc
    by (simp add: too_small_def measureJson_def serializeJson_def dec_int_def dec_nat.simps
        digit_char_def responseTopic_def
        subscribed_def)
  from h1 h2 h5 a b show ?thesis
    by simp
qed

text \<open>
  Claim C1, as amended: when \<open>method\<close> matches no registered entry, no handler is called
  and the response stays the default record, which writes nothing, so the response document
  is the null variant. With \<open>PayloadSize\<close> at least 5 its text \<open>null\<close> is published on
  the derived reply channel; with \<open>PayloadSize\<close> from 1 to 4 the text does not pass the size
  check and nothing is published.
\<close>

theorem unmatched_method_reply:
  assumes "as_cstr (get_member data ''method'') = Some methodName"
    and "\<forall>cb \<in> set (m_rpcCallbacks st). m_cb cb = None \<or> m_name cb \<noteq> methodName"
    and "PayloadSize \<noteq> 0"
  shows "invoked (process_message PayloadSize MaxFieldsAmt E topic (Inr data) st) = invoked st \<and>
         m_client (process_message PayloadSize MaxFieldsAmt E topic (Inr data) st) =
           (if 5 \<le> unat PayloadSize
            then m_client st @ [Publish (responseTopic topic) ''null'']
            else m_client st)"
proof -
  have r: "call_first_match (m_rpcCallbacks st) 0 methodName data
             (log methodName (log ''received RPC:'' st)) =
           (Telemetry_default, log methodName (log ''received RPC:'' st))"
    using assms(2) by (simp add: call_first_match_none)
  have small: "too_small PayloadSize (measureJson (float_text E) (to_JsonVariant 1)) \<longleftrightarrow>
      \<not> 5 \<le> unat PayloadSize"
    using assms(3) by (auto simp: too_small_iff measure_null)
  show ?thesis
  proof (cases "5 \<le> unat PayloadSize")
    case True
    with small have fits: "\<not> too_small PayloadSize (measureJson (float_text E) (to_JsonVariant 1))"
      by simp
    from serializeJson_fits [OF assms(3) fits]
    have "serializeJson (float_text E) (to_JsonVariant 1) (unat PayloadSize) = ''null''"
      by (simp add: to_JsonVariant_def)
    with True fits assms(1) r show ?thesis
      by (simp add: process_message_def serializeKeyval_default client_call_def)
  next
    case False
    with small assms(1) r show ?thesis
      by (simp add: process_message_def serializeKeyval_default)
  qed
qed

theorem unmatched_method_reply_witness:
  "as_cstr (get_member (rpc_message ''unregistered_name'') ''method'') = Some ''unregistered_name'' \<and>
   (64 :: 32 word) \<noteq> 0 \<and>
   invoked (process_message (64 :: 32 word) 8 accepting ''v1/devices/me/rpc/request/1''
              (Inr (rpc_message ''unregistered_name'')) subscribed) = [] \<and>
   m_client (process_message (64 :: 32 word) 8 accepting ''v1/devices/me/rpc/request/1''
              (Inr (rpc_message ''unregistered_name'')) subscribed) =
     [Subscribe ''v1/devices/me/rpc/request/+'', SetCallback,
      Publish (responseTopic ''v1/devices/me/rpc/request/1'') ''null'']"
proof -
  have h1: "as_cstr (get_member (rpc_message ''unregistered_name'') ''method'') =
      Some ''unregistered_name''"
    by (simp add: as_cstr_def get_member_def members_def rpc_message_def)
  have h2: "\<forall>cb \<in> set (m_rpcCallbacks subscribed).
      m_cb cb = None \<or> m_name cb \<noteq> ''unregistered_name''"
    by (simp add: subscribed_def getValue_def)
  have h3: "(64 :: 32 word) \<noteq> 0"
    by simp
  show ?thesis
    using h1 h3 unmatched_method_reply [OF h1 h2 h3, of 8 accepting "''v1/devices/me/rpc/request/1''"]
    by (simp add: subscribed_def)
qed

text \<open>
  Claim C1 as stated fails: with the default \<open>PayloadSize\<close> of 64, a message whose method
  is not registered is answered with \<open>null\<close> on the reply channel.
\<close>

theorem unmatched_method_counterexample:
  "m_client (process_message (64 :: 32 word) 8 accepting ''v1/devices/me/rpc/request/1''
              (Inr (rpc_message ''unregistered_name'')) subscribed) =
     m_client subscribed @ [Publish ''v1/devices/me/rpc/response/1'' ''null'']"
  by (simp add: process_message_def rpc_message_def subscribed_def getValue_def as_cstr_def
      get_member_def members_def log_def Telemetry_default_def serializeKeyval_def
      to_JsonVariant_def too_small_def measureJson_def serializeJson_def client_call_def
      responseTopic_def)

subsection \<open>The reply channel\<close>

lemma replace_unchanged: "\<not> occurs f s \<Longrightarrow> replace f r s = s"
  by (induction s) auto

lemma replace_at_marker:
  assumes "f \<noteq> []"
  shows "replace f r (f @ rest) = r @ replace f r rest"
proof -
  from assms obtain c cs where f: "f = c # cs"
    by (cases f) auto
  have "replace f r (c # cs @ rest) =
      (if f \<noteq> [] \<and> take (length f) (c # cs @ rest) = f
       then r @ replace f r (drop (length f) (c # cs @ rest))
       else c # replace f r (cs @ rest))"
    by (rule replace.simps(2))
  moreover have "take (length f) (c # cs @ rest) = f" "drop (length f) (c # cs @ rest) = rest"
    using f by simp_all
  ultimately show ?thesis
    using f by simp
qed

lemma take_within: "n \<le> length xs \<Longrightarrow> take n (xs @ ys) = take n xs"
  by simp

lemma replace_first_occurrence:
  assumes "f \<noteq> []" and "\<not> occurs f (pre @ butlast f)"
  shows "replace f r (pre @ f @ rest) = pre @ r @ replace f r rest"
  using assms(2)
proof (induction pre)
  case Nil
  from assms(1) show ?case
    by (simp add: replace_at_marker)
next
  case (Cons p ps)
  from Cons.prems have here: "take (length f) (p # ps @ butlast f) \<noteq> f"
    and later: "\<not> occurs f (ps @ butlast f)"
    by simp_all
  have "butlast f @ last f # rest = f @ rest"
    using assms(1) by simp
  then have "p # ps @ f @ rest = (p # ps @ butlast f) @ (last f # rest)"
    by simp
  then have "take (length f) (p # ps @ f @ rest) =
      take (length f) ((p # ps @ butlast f) @ (last f # rest))"
    by (rule arg_cong)
  also have "\<dots> = take (length f) (p # ps @ butlast f)"
    by (rule take_within) simp
  finally have "take (length f) (p # ps @ f @ rest) \<noteq> f"
    using here by simp
  then have "replace f r ((p # ps) @ f @ rest) = p # replace f r (ps @ f @ rest)"
    by simp
  with Cons.IH [OF later] show ?case
    by simp
qed

text \<open>Whatever \<open>process_message\<close> publishes, it publishes on \<open>responseTopic topic\<close>.\<close>

lemma process_message_reply_channel:
  "m_client (process_message PayloadSize MaxFieldsAmt E topic decoded st) = m_client st \<or>
   (\<exists>payload. m_client (process_message PayloadSize MaxFieldsAmt E topic decoded st) =
      m_client st @ [Publish (responseTopic topic) payload])"
proof (cases decoded)
  case (Inl error)
  then show ?thesis
    by (simp add: process_message_def)
next
  case (Inr data)
  show ?thesis
  proof (cases "as_cstr (get_member data ''method'')")
    case None
    with Inr show ?thesis
      by (simp add: process_message_def)
  next
    case (Some methodName)
    from call_first_match_m_client
      [of "m_rpcCallbacks st" 0 methodName data "log methodName (log ''received RPC:'' st)"]
    show ?thesis
      using Inr Some
      by (auto simp: process_message_def client_call_def split: prod.split)
  qed
qed

text \<open>
  Claim C2, as amended: the reply channel is the request channel with every occurrence of
  \<open>request\<close> replaced by \<open>response\<close> and all other bytes kept. For a channel whose first
  occurrence of the marker follows \<open>pre\<close>, the reply channel is \<open>pre\<close>, then
  \<open>response\<close>, then the remainder treated in the same way; a remainder without the marker,
  such as a numeric request id, is unchanged. So \<open>v1/devices/me/rpc/request/42\<close> gives
  \<open>v1/devices/me/rpc/response/42\<close>.
\<close>

theorem reply_channel_replaces_every_marker:
  assumes "\<not> occurs ''request'' (pre @ ''reques'')"
  shows "responseTopic (pre @ ''request'' @ rest) = pre @ ''response'' @ responseTopic rest \<and>
         (\<not> occurs ''request'' rest \<longrightarrow>
            responseTopic (pre @ ''request'' @ rest) = pre @ ''response'' @ rest)"
proof -
  have first: "responseTopic (pre @ ''request'' @ rest) = pre @ ''response'' @ responseTopic rest"
    unfolding responseTopic_def using assms
    by (intro replace_first_occurrence) simp_all
  have "responseTopic rest = rest" if "\<not> occurs ''request'' rest"
    unfolding responseTopic_def using that by (rule replace_unchanged)
  with first show ?thesis
    by simp
qed

theorem reply_channel_replaces_every_marker_witness:
  "\<not> occurs ''request'' (''v1/devices/me/rpc/'' @ ''reques'') \<and>
   \<not> occurs ''request'' ''/42'' \<and>
   responseTopic ''v1/devices/me/rpc/request/42'' = ''v1/devices/me/rpc/response/42''"
proof -
  have h: "\<not> occurs ''request'' (''v1/devices/me/rpc/'' @ ''reques'')"
    by simp
  have r: "\<not> occurs ''request'' ''/42''"
    by simp
  from reply_channel_replaces_every_marker [OF h, of "''/42''"] r
  have "responseTopic (''v1/devices/me/rpc/'' @ ''request'' @ ''/42'') =
      ''v1/devices/me/rpc/'' @ ''response'' @ ''/42''"
    by blast
  with h r show ?thesis
    by simp
qed

text \<open>
  Claim C2 as stated fails on a channel that holds the marker twice: both occurrences are
  replaced, so the trailing segment is not preserved, where a replacement of the first
  occurrence only would keep it.
\<close>

theorem reply_channel_counterexample:
  "responseTopic ''v1/devices/me/rpc/request/request'' = ''v1/devices/me/rpc/response/response'' \<and>
   replace_first ''request'' ''response'' ''v1/devices/me/rpc/request/request'' =
     ''v1/devices/me/rpc/response/request'' \<and>
   m_client (process_message (64 :: 32 word) 8 accepting ''v1/devices/me/rpc/request/request''
               (Inr (rpc_message ''getValue'')) subscribed) =
     m_client subscribed @ [Publish ''v1/devices/me/rpc/response/response'' ''1'']"
  by (simp add: process_message_def rpc_message_def subscribed_def getValue_def as_cstr_def
      get_member_def members_def containsKey_def log_def serializeKeyval_def set_variant_def
      to_JsonVariant_def too_small_def measureJson_def serializeJson_def client_call_def
      responseTopic_def dec_int_def dec_nat.simps digit_char_def)

end
